theory Spec2Isabelle
  imports Main "HOL-Library.Word"
begin

section \<open>JavaScript strings\<close>

text \<open>
  A JavaScript string is a sequence of UTF-16 code units; \<open>length\<close> counts code units.
  The literals of the program are ASCII, except for the four key-cap glyphs of
  \<open>HotkeyDisplay.tsx\<close>, which are single code units above the ASCII range.
\<close>

type_synonym jstring = "16 word list"

definition utf16 :: "string \<Rightarrow> jstring" where
  "utf16 s = map (\<lambda>c. of_char c) s"

text \<open>\<open>Array.prototype.join\<close> with a separator string.\<close>

fun join :: "jstring \<Rightarrow> jstring list \<Rightarrow> jstring" where
  "join sep [] = []"
| "join sep [p] = p"
| "join sep (p # q # ps) = p @ sep @ join sep (q # ps)"

text \<open>
  \<open>String.prototype.split\<close> for a separator of one code unit (the program only splits
  on \<open>"+"\<close>): the pieces between the separators, empty pieces included, so the empty
  string gives one empty piece.
\<close>

fun split_on :: "16 word \<Rightarrow> jstring \<Rightarrow> jstring list" where
  "split_on sep [] = [[]]"
| "split_on sep (c # cs) =
     (if c = sep then [] # split_on sep cs
      else (case split_on sep cs of
              [] \<Rightarrow> [[c]]
            | p # ps \<Rightarrow> (c # p) # ps))"

text \<open>
  The decimal digits of a non-negative integer, as the template literal
  \<open>`${bytes}`\<close> prints it.
\<close>

fun decimal :: "nat \<Rightarrow> string" where
  "decimal n =
     (if n < 10 then [''0123456789'' ! n]
      else decimal (n div 10) @ [''0123456789'' ! (n mod 10)])"

text \<open>
  The action of \<open>String.prototype.toUpperCase\<close> on the ASCII letters. On other code
  units the built-in follows the Unicode case mapping, which is not modelled: the key
  handler below takes the built-in as a parameter, and this function instantiates it
  on concrete ASCII inputs.
\<close>

definition ascii_toUpperCase :: "jstring \<Rightarrow> jstring" where
  "ascii_toUpperCase s = map (\<lambda>c. if 0x61 \<le> c \<and> c \<le> 0x7A then c - 0x20 else c) s"

section \<open>Data model (\<open>types/index.ts\<close>)\<close>

datatype provider_id = OpenAiWhisper | GoogleCloud | LocalWhisper | NativeStt | ConstmeWhisper

datatype interaction_mode = PushToTalk | Toggle

text \<open>
  A \<open>ProviderConfig\<close> object at run time: a field that is absent reads \<open>None\<close>, a field
  holding \<open>null\<close> reads \<open>Some None\<close>, a field holding a string \<open>s\<close> reads
  \<open>Some (Some s)\<close>. The declared fields are \<open>api_key\<close>, \<open>model\<close>, \<open>language\<close> and
  \<open>endpoint\<close>; \<open>updateProviderConfig\<close> writes a field by its name.

  An object is modelled by its own enumerable properties: these are what the spread
  \<open>{ ...obj }\<close> copies and what is sent to the engine. The prototype of an object is not
  part of the model.
\<close>

type_synonym provider_config = "jstring \<rightharpoonup> jstring option"

record app_settings =
  active_provider :: provider_id
  interaction_mode :: interaction_mode
  hotkey :: jstring
  language :: jstring
  provider_configs :: "jstring \<rightharpoonup> provider_config"
  local_whisper_model_path :: "jstring option"
  constme_whisper_dll_path :: "jstring option"
  constme_whisper_model_path :: "jstring option"
  constme_whisper_model_name :: "jstring option"
  auto_paste :: bool
  show_overlay :: bool
  input_device :: "jstring option"

text \<open>
  The fields of the payload records carry a prefix, since several of them share their
  names (\<open>text\<close>, \<open>provider\<close>, \<open>language\<close>, \<open>name\<close>) with each other and with the
  settings.
\<close>

record transcription_result =
  result_text :: jstring
  result_provider :: provider_id
  result_duration_ms :: nat
  result_language :: "jstring option"

record transcription_entry =
  entry_id :: jstring
  entry_text :: jstring
  entry_provider :: provider_id
  entry_timestamp :: jstring
  entry_duration_ms :: nat
  entry_language :: "jstring option"

record provider_info =
  info_id :: provider_id
  info_name :: jstring
  info_available :: bool

record audio_device =
  device_name :: jstring
  is_default :: bool

record constme_model_status =
  model_name :: jstring
  model_filename :: jstring
  size_description :: jstring
  model_available :: bool
  model_path :: "jstring option"

record constme_whisper_status =
  dll_available :: bool
  dll_path :: "jstring option"
  models :: "constme_model_status list"

section \<open>The store (\<open>stores/useAppStore.ts\<close>)\<close>

datatype view = Home | Settings | History

record app_state =
  isRecording :: bool
  isTranscribing :: bool
  settings :: "app_settings option"
  history :: "transcription_entry list"
  providers :: "provider_info list"
  currentTranscription :: jstring
  error :: "jstring option"
  activeView :: view

definition initial_state :: app_state where
  "initial_state =
     \<lparr> isRecording = False, isTranscribing = False, settings = None, history = [],
       providers = [], currentTranscription = [], error = None, activeView = Home \<rparr>"

definition setRecording :: "bool \<Rightarrow> app_state \<Rightarrow> app_state" where
  "setRecording val s = s\<lparr>isRecording := val\<rparr>"

definition setTranscribing :: "bool \<Rightarrow> app_state \<Rightarrow> app_state" where
  "setTranscribing val s = s\<lparr>isTranscribing := val\<rparr>"

definition setSettings :: "app_settings \<Rightarrow> app_state \<Rightarrow> app_state" where
  "setSettings st s = s\<lparr>settings := Some st\<rparr>"

definition setHistory :: "transcription_entry list \<Rightarrow> app_state \<Rightarrow> app_state" where
  "setHistory entries s = s\<lparr>history := entries\<rparr>"

text \<open>\<open>[entry, ...state.history].slice(0, 100)\<close>\<close>

definition addHistory :: "transcription_entry \<Rightarrow> app_state \<Rightarrow> app_state" where
  "addHistory entry s = s\<lparr>history := take 100 (entry # history s)\<rparr>"

text \<open>Appending a sequence of entries, the oldest first.\<close>

fun addHistory_all :: "transcription_entry list \<Rightarrow> app_state \<Rightarrow> app_state" where
  "addHistory_all [] s = s"
| "addHistory_all (e # es) s = addHistory_all es (addHistory e s)"

definition setProviders :: "provider_info list \<Rightarrow> app_state \<Rightarrow> app_state" where
  "setProviders ps s = s\<lparr>providers := ps\<rparr>"

definition setCurrentTranscription :: "jstring \<Rightarrow> app_state \<Rightarrow> app_state" where
  "setCurrentTranscription txt s = s\<lparr>currentTranscription := txt\<rparr>"

definition setError :: "jstring option \<Rightarrow> app_state \<Rightarrow> app_state" where
  "setError err s = s\<lparr>error := err\<rparr>"

definition setActiveView :: "view \<Rightarrow> app_state \<Rightarrow> app_state" where
  "setActiveView v s = s\<lparr>activeView := v\<rparr>"

section \<open>Engine events and their handlers (\<open>App.tsx\<close>, \<open>lib/events.ts\<close>)\<close>

text \<open>
  The five events that \<open>setupEventListeners\<close> listens to. The handler of
  \<open>transcription-complete\<close> reads \<open>crypto.randomUUID()\<close> and the clock; the two values
  it obtained are carried by the event.
\<close>

datatype engine_event =
    RecordingStarted
  | RecordingStopped
  | Transcribing
  | TranscriptionComplete transcription_result jstring jstring
  | ErrorEvent jstring

definition onRecordingStarted :: "app_state \<Rightarrow> app_state" where
  "onRecordingStarted s = setError None (setRecording True s)"

definition onRecordingStopped :: "app_state \<Rightarrow> app_state" where
  "onRecordingStopped s = setRecording False s"

definition onTranscribing :: "app_state \<Rightarrow> app_state" where
  "onTranscribing s = setTranscribing True s"

definition onTranscriptionComplete ::
  "transcription_result \<Rightarrow> jstring \<Rightarrow> jstring \<Rightarrow> app_state \<Rightarrow> app_state" where
  "onTranscriptionComplete result uuid now s =
     addHistory
       \<lparr> entry_id = uuid, entry_text = result_text result,
         entry_provider = result_provider result, entry_timestamp = now,
         entry_duration_ms = result_duration_ms result,
         entry_language = result_language result \<rparr>
       (setCurrentTranscription (result_text result) (setTranscribing False s))"

definition onError :: "jstring \<Rightarrow> app_state \<Rightarrow> app_state" where
  "onError err s = setError (Some err) (setTranscribing False (setRecording False s))"

fun deliver :: "engine_event \<Rightarrow> app_state \<Rightarrow> app_state" where
  "deliver RecordingStarted s = onRecordingStarted s"
| "deliver RecordingStopped s = onRecordingStopped s"
| "deliver Transcribing s = onTranscribing s"
| "deliver (TranscriptionComplete result uuid now) s = onTranscriptionComplete result uuid now s"
| "deliver (ErrorEvent err) s = onError err s"

text \<open>Events are handled one at a time, in the order of delivery.\<close>

fun deliver_all :: "engine_event list \<Rightarrow> app_state \<Rightarrow> app_state" where
  "deliver_all [] s = s"
| "deliver_all (e # es) s = deliver_all es (deliver e s)"

text \<open>
  The handlers of \<open>recording-started\<close> and \<open>transcribing\<close> each set their own flag
  only. An event is \<^emph>\<open>in turn\<close> in a state when it is neither \<open>recording-started\<close>
  during a transcription nor \<open>transcribing\<close> during a recording; a sequence is in turn
  when each of its events is, in the state that its predecessors have produced.
\<close>

fun in_turn :: "app_state \<Rightarrow> engine_event \<Rightarrow> bool" where
  "in_turn s RecordingStarted = (\<not> isTranscribing s)"
| "in_turn s Transcribing = (\<not> isRecording s)"
| "in_turn s _ = True"

fun all_in_turn :: "app_state \<Rightarrow> engine_event list \<Rightarrow> bool" where
  "all_in_turn s [] = True"
| "all_in_turn s (e # es) = (in_turn s e \<and> all_in_turn (deliver e s) es)"

text \<open>The three states of the lifecycle: not recording and transcribing at once.\<close>

definition exclusive :: "app_state \<Rightarrow> bool" where
  "exclusive s = (\<not> (isRecording s \<and> isTranscribing s))"

section \<open>Engine commands (\<open>lib/commands.ts\<close>)\<close>

text \<open>
  A promise settles with a value (\<open>Inr\<close>) or rejects (\<open>Inl\<close>). A rejection is either the
  \<open>Error\<close> that \<open>tauriInvoke\<close> throws itself or a reason given by the engine.
\<close>

datatype js_error = Error jstring | EngineRejection jstring

text \<open>
  The engine as \<open>invoke\<close> sees it: what each command settles with. The type parameter
  of \<open>invoke<T>\<close> is the result type of the field.
\<close>

record engine =
  start_recording :: "js_error + unit"
  stop_recording_and_transcribe :: "js_error + jstring"
  get_recording_state :: "js_error + bool"
  get_settings :: "js_error + app_settings"
  save_settings :: "app_settings \<Rightarrow> js_error + unit"
  get_history :: "js_error + transcription_entry list"
  clear_history :: "js_error + unit"
  get_providers :: "js_error + provider_info list"
  list_input_devices :: "js_error + audio_device list"
  get_constme_whisper_status :: "js_error + constme_whisper_status"
  download_constme_dll :: "js_error + jstring"
  download_constme_model :: "jstring \<Rightarrow> js_error + jstring"

text \<open>
  \<open>isTauri\<close> holds when an engine is attached to the window: \<open>Some\<close> engine. Without one
  (\<open>None\<close>) the program runs headless.
\<close>

definition tauriInvoke :: "engine option \<Rightarrow> (engine \<Rightarrow> js_error + 'a) \<Rightarrow> js_error + 'a" where
  "tauriInvoke eng cmd =
     (case eng of
        None \<Rightarrow> Inl (Error (utf16 ''Not running in Tauri''))
      | Some e \<Rightarrow> cmd e)"

text \<open>\<open>promise.catch(() => fallback)\<close>\<close>

definition catch_with :: "'a \<Rightarrow> js_error + 'a \<Rightarrow> js_error + 'a" where
  "catch_with fallback p = (case p of Inl _ \<Rightarrow> Inr fallback | Inr v \<Rightarrow> Inr v)"

definition DEFAULT_HOTKEY :: jstring where
  "DEFAULT_HOTKEY = utf16 ''CommandOrControl+Shift+Space''"

definition defaultSettings :: app_settings where
  "defaultSettings =
     \<lparr> active_provider = OpenAiWhisper, interaction_mode = Toggle, hotkey = DEFAULT_HOTKEY,
       language = utf16 ''auto'', provider_configs = Map.empty,
       local_whisper_model_path = None, constme_whisper_dll_path = None,
       constme_whisper_model_path = None, constme_whisper_model_name = None,
       auto_paste = True, show_overlay = True, input_device = None \<rparr>"

definition defaultProviders :: "provider_info list" where
  "defaultProviders =
     [ \<lparr> info_id = OpenAiWhisper, info_name = utf16 ''OpenAI Whisper'', info_available = True \<rparr>,
       \<lparr> info_id = GoogleCloud, info_name = utf16 ''Google Cloud Speech-to-Text'',
         info_available = True \<rparr>,
       \<lparr> info_id = LocalWhisper, info_name = utf16 ''Local Whisper (whisper.cpp)'',
         info_available = False \<rparr>,
       \<lparr> info_id = NativeStt, info_name = utf16 ''Native OS Speech-to-Text'',
         info_available = True \<rparr>,
       \<lparr> info_id = ConstmeWhisper, info_name = utf16 ''Whisper GPU (DirectCompute)'',
         info_available = False \<rparr> ]"

definition startRecording :: "engine option \<Rightarrow> js_error + unit" where
  "startRecording eng = tauriInvoke eng start_recording"

definition stopRecordingAndTranscribe :: "engine option \<Rightarrow> js_error + jstring" where
  "stopRecordingAndTranscribe eng = tauriInvoke eng stop_recording_and_transcribe"

definition getRecordingState :: "engine option \<Rightarrow> js_error + bool" where
  "getRecordingState eng = catch_with False (tauriInvoke eng get_recording_state)"

definition getSettings :: "engine option \<Rightarrow> js_error + app_settings" where
  "getSettings eng = catch_with defaultSettings (tauriInvoke eng get_settings)"

definition saveSettings :: "engine option \<Rightarrow> app_settings \<Rightarrow> js_error + unit" where
  "saveSettings eng st = tauriInvoke eng (\<lambda>e. save_settings e st)"

definition getHistory :: "engine option \<Rightarrow> js_error + transcription_entry list" where
  "getHistory eng = catch_with [] (tauriInvoke eng get_history)"

definition clearHistory :: "engine option \<Rightarrow> js_error + unit" where
  "clearHistory eng = tauriInvoke eng clear_history"

definition getProviders :: "engine option \<Rightarrow> js_error + provider_info list" where
  "getProviders eng = catch_with defaultProviders (tauriInvoke eng get_providers)"

definition listInputDevices :: "engine option \<Rightarrow> js_error + audio_device list" where
  "listInputDevices eng = catch_with [] (tauriInvoke eng list_input_devices)"

definition getConstmeWhisperStatus :: "engine option \<Rightarrow> js_error + constme_whisper_status" where
  "getConstmeWhisperStatus eng = tauriInvoke eng get_constme_whisper_status"

definition downloadConstmeDll :: "engine option \<Rightarrow> js_error + jstring" where
  "downloadConstmeDll eng = tauriInvoke eng download_constme_dll"

definition downloadConstmeModel :: "engine option \<Rightarrow> jstring \<Rightarrow> js_error + jstring" where
  "downloadConstmeModel eng modelFilename =
     tauriInvoke eng (\<lambda>e. download_constme_model e modelFilename)"

text \<open>
  \<open>setupEventListeners\<close> returns one unlisten handle for each event it has subscribed
  to, in the order of subscription; a handle is identified by the name of its event.
\<close>

definition setupEventListeners :: "engine option \<Rightarrow> jstring list" where
  "setupEventListeners eng =
     (case eng of
        None \<Rightarrow> []
      | Some _ \<Rightarrow>
          [utf16 ''recording-started'', utf16 ''recording-stopped'', utf16 ''transcribing'',
           utf16 ''transcription-complete'', utf16 ''error''])"

section \<open>The microphone button (\<open>App.tsx\<close>)\<close>

datatype command = StartRecording | StopRecordingAndTranscribe

text \<open>
  What one click does: the commands it calls, what it writes with \<open>console.error\<close>, and
  the store it leaves.
\<close>

record click_outcome =
  called :: "command list"
  logged :: "js_error list"
  store_after :: app_state

definition handleMicClick :: "engine option \<Rightarrow> app_state \<Rightarrow> click_outcome" where
  "handleMicClick eng s =
     (if isTranscribing s then \<lparr> called = [], logged = [], store_after = s \<rparr>
      else if isRecording s then
        (case stopRecordingAndTranscribe eng of
           Inl e \<Rightarrow> \<lparr> called = [StopRecordingAndTranscribe], logged = [e], store_after = s \<rparr>
         | Inr _ \<Rightarrow> \<lparr> called = [StopRecordingAndTranscribe], logged = [], store_after = s \<rparr>)
      else
        (case startRecording eng of
           Inl e \<Rightarrow> \<lparr> called = [StartRecording], logged = [e], store_after = s \<rparr>
         | Inr _ \<Rightarrow> \<lparr> called = [StartRecording], logged = [], store_after = s \<rparr>))"

section \<open>The settings panel (\<open>components/settings/SettingsPanel.tsx\<close>)\<close>

text \<open>
  The state that the panel works on: the store, which holds the saved settings, and the
  component's own state, with the draft in \<open>localSettings\<close>. \<open>console_errors\<close> collects
  what the panel writes with \<open>console.error\<close>.
\<close>

record settings_panel =
  store :: app_state
  localSettings :: "app_settings option"
  saving :: bool
  saved :: bool
  isRecordingHotkey :: bool
  console_errors :: "js_error list"

text \<open>
  The effect on \<open>[settings]\<close>: when the saved settings change, the draft becomes a copy
  of them.
\<close>

definition settings_effect :: "settings_panel \<Rightarrow> settings_panel" where
  "settings_effect p =
     (case settings (store p) of
        None \<Rightarrow> p
      | Some st \<Rightarrow> p\<lparr>localSettings := Some st\<rparr>)"

text \<open>
  \<open>updateField(key, value)\<close> for each key of \<open>AppSettings\<close>, with a value of the type of
  that key.
\<close>

datatype field_update =
    Set_active_provider provider_id
  | Set_interaction_mode interaction_mode
  | Set_hotkey jstring
  | Set_language jstring
  | Set_provider_configs "jstring \<rightharpoonup> provider_config"
  | Set_local_whisper_model_path "jstring option"
  | Set_constme_whisper_dll_path "jstring option"
  | Set_constme_whisper_model_path "jstring option"
  | Set_constme_whisper_model_name "jstring option"
  | Set_auto_paste bool
  | Set_show_overlay bool
  | Set_input_device "jstring option"

fun with_field :: "field_update \<Rightarrow> app_settings \<Rightarrow> app_settings" where
  "with_field (Set_active_provider v) prev = prev\<lparr>active_provider := v\<rparr>"
| "with_field (Set_interaction_mode v) prev = prev\<lparr>interaction_mode := v\<rparr>"
| "with_field (Set_hotkey v) prev = prev\<lparr>hotkey := v\<rparr>"
| "with_field (Set_language v) prev = prev\<lparr>language := v\<rparr>"
| "with_field (Set_provider_configs v) prev = prev\<lparr>provider_configs := v\<rparr>"
| "with_field (Set_local_whisper_model_path v) prev = prev\<lparr>local_whisper_model_path := v\<rparr>"
| "with_field (Set_constme_whisper_dll_path v) prev = prev\<lparr>constme_whisper_dll_path := v\<rparr>"
| "with_field (Set_constme_whisper_model_path v) prev =
     prev\<lparr>constme_whisper_model_path := v\<rparr>"
| "with_field (Set_constme_whisper_model_name v) prev =
     prev\<lparr>constme_whisper_model_name := v\<rparr>"
| "with_field (Set_auto_paste v) prev = prev\<lparr>auto_paste := v\<rparr>"
| "with_field (Set_show_overlay v) prev = prev\<lparr>show_overlay := v\<rparr>"
| "with_field (Set_input_device v) prev = prev\<lparr>input_device := v\<rparr>"

definition updateField :: "field_update \<Rightarrow> settings_panel \<Rightarrow> settings_panel" where
  "updateField u p =
     (case localSettings p of
        None \<Rightarrow> p
      | Some prev \<Rightarrow> p\<lparr>localSettings := Some (with_field u prev)\<rparr>)"

text \<open>
  \<open>{ ...configs[providerId], [field]: value || null }\<close>: the empty string is the only
  string that is falsy. \<open>configs\<close> is a fresh copy of the own properties. Where it has
  no own property \<open>providerId\<close>, the read gives \<open>undefined\<close> or a value inherited from
  \<open>Object.prototype\<close>, none of which has an own enumerable property: the spread
  contributes nothing. The computed key \<open>[field]\<close> always defines an own property.

  The assignment \<open>configs[providerId] = ...\<close> writes an own property, with one exception:
  for the key \<open>__proto__\<close>, when \<open>configs\<close> has no own property of that name, it runs
  the setter inherited from \<open>Object.prototype\<close>, which replaces the prototype of
  \<open>configs\<close> and creates no own property.
\<close>

definition updateProviderConfig ::
  "jstring \<Rightarrow> jstring \<Rightarrow> jstring \<Rightarrow> settings_panel \<Rightarrow> settings_panel" where
  "updateProviderConfig providerId field val p =
     (case localSettings p of
        None \<Rightarrow> p
      | Some prev \<Rightarrow>
          let configs = provider_configs prev;
              old = (case configs providerId of None \<Rightarrow> Map.empty | Some c \<Rightarrow> c);
              entry = old(field \<mapsto> (if val = [] then None else Some val));
              configs' = (if providerId = utf16 ''__proto__'' \<and> configs providerId = None
                          then configs
                          else configs(providerId \<mapsto> entry))
          in p\<lparr>localSettings := Some (prev\<lparr>provider_configs := configs'\<rparr>)\<rparr>)"

text \<open>
  Reading the own property \<open>field\<close> of the own entry \<open>providerId\<close>: \<open>None\<close> when the
  entry or the field is absent, \<open>Some None\<close> when the field is \<open>null\<close>. \<open>draft_configs\<close> is the
  \<open>provider_configs\<close> of the draft.
\<close>

definition config_field ::
  "(jstring \<rightharpoonup> provider_config) \<Rightarrow> jstring \<Rightarrow> jstring \<Rightarrow> jstring option option" where
  "config_field configs providerId field =
     (case configs providerId of None \<Rightarrow> None | Some c \<Rightarrow> c field)"

definition draft_configs :: "settings_panel \<Rightarrow> jstring \<rightharpoonup> provider_config" where
  "draft_configs p =
     (case localSettings p of None \<Rightarrow> Map.empty | Some d \<Rightarrow> provider_configs d)"

text \<open>
  \<open>handleSave\<close>, run to its end. The timer that it starts after a successful save is
  \<open>saved_timeout\<close>, 2000 ms later.
\<close>

definition handleSave :: "engine option \<Rightarrow> settings_panel \<Rightarrow> settings_panel" where
  "handleSave eng p =
     (case localSettings p of
        None \<Rightarrow> p
      | Some draft \<Rightarrow>
          (case saveSettings eng draft of
             Inr _ \<Rightarrow>
               settings_effect
                 (p\<lparr>store := setSettings draft (store p), saved := True, saving := False\<rparr>)
           | Inl e \<Rightarrow> p\<lparr>console_errors := console_errors p @ [e], saving := False\<rparr>))"

definition saved_timeout :: "settings_panel \<Rightarrow> settings_panel" where
  "saved_timeout p = p\<lparr>saved := False\<rparr>"

subsection \<open>Hotkey capture\<close>

record key_event =
  key :: jstring
  ctrlKey :: bool
  metaKey :: bool
  altKey :: bool
  shiftKey :: bool

text \<open>
  \<open>handleHotkeyKeyDown\<close>. Its first argument stands for the built-in
  \<open>String.prototype.toUpperCase\<close>.
\<close>

definition handleHotkeyKeyDown ::
  "(jstring \<Rightarrow> jstring) \<Rightarrow> key_event \<Rightarrow> settings_panel \<Rightarrow> settings_panel" where
  "handleHotkeyKeyDown toUpperCase e p =
     (if key e = utf16 ''Escape'' then p\<lparr>isRecordingHotkey := False\<rparr>
      else if key e = utf16 ''Backspace'' \<or> key e = utf16 ''Delete'' then
        (updateField (Set_hotkey DEFAULT_HOTKEY) p)\<lparr>isRecordingHotkey := False\<rparr>
      else if key e \<in> set [utf16 ''Control'', utf16 ''Alt'', utf16 ''Shift'', utf16 ''Meta'',
                            utf16 ''Command''] then p
      else
        let parts = (if ctrlKey e \<or> metaKey e then [utf16 ''CommandOrControl''] else [])
                  @ (if altKey e then [utf16 ''Alt''] else [])
                  @ (if shiftKey e then [utf16 ''Shift''] else []);
            k = (if key e = utf16 '' '' then utf16 ''Space''
                 else if length (key e) = 1 then toUpperCase (key e)
                 else key e)
        in (updateField (Set_hotkey (join (utf16 ''+'') (parts @ [k]))) p)
             \<lparr>isRecordingHotkey := False\<rparr>)"

text \<open>
  The reading of "a single printable character" in the description of the codec, which
  sets the space bar apart from single printable characters and from named keys: a key
  value of one code unit that is not the space.
\<close>

definition printable_key :: "jstring \<Rightarrow> bool" where
  "printable_key k = (length k = 1 \<and> k \<noteq> utf16 '' '')"

text \<open>The keys that the handler treats before it builds a hotkey.\<close>

definition control_keys :: "jstring list" where
  "control_keys =
     [utf16 ''Escape'', utf16 ''Backspace'', utf16 ''Delete'', utf16 ''Control'', utf16 ''Alt'',
      utf16 ''Shift'', utf16 ''Meta'', utf16 ''Command'']"

subsection \<open>The encoding as the codec is described\<close>

text \<open>
  The encoding in the words of its description: the modifiers are tested in the fixed
  order control-or-meta, alt, shift; one terminal token follows, \<open>Space\<close> for the
  space, the upper-cased character for a single character, the name itself for a named
  key; the tokens are joined with \<open>+\<close>.
\<close>

definition modifier_tokens :: "key_event \<Rightarrow> jstring list" where
  "modifier_tokens e =
     map snd (filter fst
       [(ctrlKey e \<or> metaKey e, utf16 ''CommandOrControl''),
        (altKey e, utf16 ''Alt''),
        (shiftKey e, utf16 ''Shift'')])"

definition terminal_token :: "(jstring \<Rightarrow> jstring) \<Rightarrow> jstring \<Rightarrow> jstring" where
  "terminal_token toUpperCase k =
     (if k = utf16 '' '' then utf16 ''Space''
      else if length k = 1 then toUpperCase k
      else k)"

definition encode_chord :: "(jstring \<Rightarrow> jstring) \<Rightarrow> key_event \<Rightarrow> jstring" where
  "encode_chord toUpperCase e =
     join (utf16 ''+'') (modifier_tokens e @ [terminal_token toUpperCase (key e)])"

section \<open>Hotkey display (\<open>components/HotkeyDisplay.tsx\<close>)\<close>

text \<open>
  \<open>isMac\<close> is read from \<open>navigator.platform\<close> and is a parameter here. The glyphs are
  U+2318 (command), U+2303 (control), U+21E7 (shift) and U+2325 (option).
\<close>

definition formatKeyLabel :: "bool \<Rightarrow> jstring \<Rightarrow> jstring" where
  "formatKeyLabel isMac k =
     (if k = utf16 ''CommandOrControl'' then (if isMac then [0x2318] else utf16 ''Ctrl'')
      else if k = utf16 ''Control'' then (if isMac then [0x2303] else utf16 ''Ctrl'')
      else if k = utf16 ''Shift'' then (if isMac then [0x21E7] else utf16 ''Shift'')
      else if k = utf16 ''Alt'' then (if isMac then [0x2325] else utf16 ''Alt'')
      else if k = utf16 ''Meta'' \<or> k = utf16 ''Command'' then [0x2318]
      else if k = utf16 ''Space'' then utf16 ''Space''
      else k)"

text \<open>The labels that \<open>HotkeyDisplay\<close> renders, one key cap for each.\<close>

definition HotkeyDisplay :: "bool \<Rightarrow> jstring \<Rightarrow> jstring list" where
  "HotkeyDisplay isMac hk = map (formatKeyLabel isMac) (split_on 0x2B hk)"

text \<open>The tokens that \<open>formatKeyLabel\<close> has a case for.\<close>

definition recognized_tokens :: "jstring list" where
  "recognized_tokens =
     [utf16 ''CommandOrControl'', utf16 ''Control'', utf16 ''Shift'', utf16 ''Alt'',
      utf16 ''Meta'', utf16 ''Command'', utf16 ''Space'']"

section \<open>Download progress (\<open>ConstmeWhisperSettings\<close>)\<close>

text \<open>
  Byte counts are non-negative integers below \<open>2^53\<close>. For these the quotient by a power
  of two is exact in binary floating point, and \<open>toFixed(f)\<close> prints the integer \<open>n\<close> for
  which \<open>n / 10^f\<close> is nearest to the quotient (the larger one on a tie) with the point
  before its last \<open>f\<close> digits. \<open>toFixed_1 b d\<close> is \<open>(b / d).toFixed(1)\<close> and
  \<open>toFixed_2 b d\<close> is \<open>(b / d).toFixed(2)\<close>, for an even \<open>d\<close>.
\<close>

definition toFixed_1 :: "nat \<Rightarrow> nat \<Rightarrow> string" where
  "toFixed_1 b d =
     (let n = (10 * b + d div 2) div d
      in decimal (n div 10) @ ''.'' @ decimal (n mod 10))"

definition toFixed_2 :: "nat \<Rightarrow> nat \<Rightarrow> string" where
  "toFixed_2 b d =
     (let n = (100 * b + d div 2) div d
      in decimal (n div 100) @ ''.'' @ decimal (n mod 100 div 10) @ decimal (n mod 10))"

definition formatBytes :: "nat \<Rightarrow> jstring" where
  "formatBytes bytes =
     utf16 (if bytes < 1024 then decimal bytes @ '' B''
            else if bytes < 1024 * 1024 then toFixed_1 bytes 1024 @ '' KB''
            else if bytes < 1024 * 1024 * 1024 then toFixed_1 bytes (1024 * 1024) @ '' MB''
            else toFixed_2 bytes (1024 * 1024 * 1024) @ '' GB'')"

record download_progress =
  item :: jstring
  downloaded_bytes :: nat
  total_bytes :: "nat option"
  is_done :: bool

text \<open>The state of the component; \<open>download_error\<close> is its \<open>error\<close>.\<close>

record constme_panel =
  status :: "constme_whisper_status option"
  downloading :: "jstring option"
  downloadProgress :: jstring
  download_error :: "jstring option"

definition loadStatus :: "engine option \<Rightarrow> constme_panel \<Rightarrow> constme_panel" where
  "loadStatus eng c =
     (case getConstmeWhisperStatus eng of
        Inr v \<Rightarrow> c\<lparr>status := Some v\<rparr>
      | Inl _ \<Rightarrow> c)"

text \<open>
  The line that an event with \<open>done = false\<close> displays. \<open>total_bytes\<close> is tested for
  truthiness: \<open>null\<close> and \<open>0\<close> both print as \<open>?\<close>.
\<close>

definition progress_line :: "download_progress \<Rightarrow> jstring" where
  "progress_line ev =
     item ev @ utf16 '': '' @ formatBytes (downloaded_bytes ev) @ utf16 '' / ''
       @ (case total_bytes ev of
            None \<Rightarrow> utf16 ''?''
          | Some t \<Rightarrow> if t = 0 then utf16 ''?'' else formatBytes t)"

text \<open>The listener of \<open>download-progress\<close>.\<close>

definition onDownloadProgress ::
  "engine option \<Rightarrow> download_progress \<Rightarrow> constme_panel \<Rightarrow> constme_panel" where
  "onDownloadProgress eng ev c =
     (if is_done ev then loadStatus eng (c\<lparr>downloadProgress := []\<rparr>)
      else c\<lparr>downloadProgress := progress_line ev\<rparr>)"

fun onDownloadProgress_all ::
  "engine option \<Rightarrow> download_progress list \<Rightarrow> constme_panel \<Rightarrow> constme_panel" where
  "onDownloadProgress_all eng [] c = c"
| "onDownloadProgress_all eng (ev # evs) c =
     onDownloadProgress_all eng evs (onDownloadProgress eng ev c)"

section \<open>Example data\<close>

text \<open>The \<open>n\<close>-th entry of a history, with \<open>n\<close> as its identifier.\<close>

definition numbered_entry :: "nat \<Rightarrow> transcription_entry" where
  "numbered_entry n =
     \<lparr> entry_id = utf16 (decimal n), entry_text = utf16 ''hello'',
       entry_provider = OpenAiWhisper, entry_timestamp = utf16 ''2024-01-01T00:00:00.000Z'',
       entry_duration_ms = 1200, entry_language = None \<rparr>"

definition sample_result :: transcription_result where
  "sample_result =
     \<lparr> result_text = utf16 ''hello'', result_provider = OpenAiWhisper,
       result_duration_ms = 1200, result_language = None \<rparr>"

text \<open>One full cycle of recording and transcription.\<close>

definition sample_events :: "engine_event list" where
  "sample_events =
     [RecordingStarted, RecordingStopped, Transcribing,
      TranscriptionComplete sample_result (utf16 ''id-1'') (utf16 ''2024-01-01T00:00:00.000Z'')]"

definition installed_status :: constme_whisper_status where
  "installed_status =
     \<lparr> dll_available = True, dll_path = Some (utf16 ''Whisper.dll''), models = [] \<rparr>"

text \<open>An engine that accepts every command.\<close>

definition accepting_engine :: engine where
  "accepting_engine =
     \<lparr> start_recording = Inr (), stop_recording_and_transcribe = Inr (utf16 ''hello''),
       get_recording_state = Inr True, get_settings = Inr defaultSettings,
       save_settings = (\<lambda>_. Inr ()), get_history = Inr [], clear_history = Inr (),
       get_providers = Inr defaultProviders, list_input_devices = Inr [],
       get_constme_whisper_status = Inr installed_status,
       download_constme_dll = Inr (utf16 ''Whisper.dll''),
       download_constme_model = (\<lambda>f. Inr f) \<rparr>"

text \<open>The panel after the default settings have been loaded.\<close>

definition sample_panel :: settings_panel where
  "sample_panel =
     \<lparr> store = setSettings defaultSettings initial_state, localSettings = Some defaultSettings,
       saving = False, saved = False, isRecordingHotkey = False, console_errors = [] \<rparr>"

definition ctrl_shift_space :: key_event where
  "ctrl_shift_space =
     \<lparr> key = utf16 '' '', ctrlKey = True, metaKey = False, altKey = False, shiftKey = True \<rparr>"

definition plain_a :: key_event where
  "plain_a =
     \<lparr> key = utf16 ''a'', ctrlKey = False, metaKey = False, altKey = False, shiftKey = False \<rparr>"

definition empty_constme_panel :: constme_panel where
  "empty_constme_panel =
     \<lparr> status = None, downloading = None, downloadProgress = [], download_error = None \<rparr>"

definition dll_progress :: download_progress where
  "dll_progress =
     \<lparr> item = utf16 ''dll'', downloaded_bytes = 512, total_bytes = Some 2048, is_done = False \<rparr>"

definition model_done :: download_progress where
  "model_done =
     \<lparr> item = utf16 ''ggml-medium.bin'', downloaded_bytes = 1536, total_bytes = Some 1536,
       is_done = True \<rparr>"

definition open_ended_progress :: download_progress where
  "open_ended_progress =
     \<lparr> item = utf16 ''ggml-medium.bin'', downloaded_bytes = 3072, total_bytes = None,
       is_done = False \<rparr>"

section \<open>The history is bounded\<close>

lemma take_append_take: "take n (xs @ take n ys) = take n (xs @ ys)"
  by (simp add: min_def)

lemma history_addHistory_all:
  "es \<noteq> [] \<Longrightarrow> history (addHistory_all es s) = take 100 (rev es @ history s)"
proof (induction es arbitrary: s)
  case Nil
  then show ?case by simp
next
  case (Cons e es)
  show ?case
  proof (cases "es = []")
    case True
    then show ?thesis by (simp add: addHistory_def)
  next
    case False
    then have "history (addHistory_all (e # es) s) = take 100 (rev es @ take 100 (e # history s))"
      using Cons.IH [of "addHistory e s"] by (simp add: addHistory_def)
    also have "\<dots> = take 100 (rev es @ e # history s)"
      by (rule take_append_take)
    finally show ?thesis by simp
  qed
qed

lemma history_from_empty:
  "history (addHistory_all es initial_state) = take 100 (rev es)"
  by (cases "es = []") (simp_all add: history_addHistory_all initial_state_def)

text \<open>
  Claim C6. For every store and every entry, \<open>addHistory\<close> puts the entry in front of
  the history and keeps the first 100 entries of the result. When the history is full
  (100 entries), the entry that goes is the last, which is the oldest. In particular,
  for 101 entries appended to the empty history, oldest first: after the first 100 the
  history holds them all, newest first; after the 101st it holds exactly 100 entries,
  all but the first appended, newest first.
\<close>

theorem addHistory_prepends_and_caps:
  "history (addHistory e s) = take 100 (e # history s)
   \<and> length (history (addHistory e s)) \<le> 100
   \<and> (length (history s) = 100 \<longrightarrow> history (addHistory e s) = e # butlast (history s))
   \<and> (length es = 101 \<longrightarrow>
        history (addHistory_all (butlast es) initial_state) = rev (butlast es)
        \<and> history (addHistory_all es initial_state) = rev (tl es)
        \<and> length (history (addHistory_all es initial_state)) = 100)"
proof (intro conjI impI)
  show "history (addHistory e s) = take 100 (e # history s)"
    by (simp add: addHistory_def)
  show "length (history (addHistory e s)) \<le> 100"
    by (simp add: addHistory_def)
  show "history (addHistory e s) = e # butlast (history s)" if "length (history s) = 100"
    using that by (simp add: addHistory_def butlast_conv_take)
next
  assume len: "length es = 101"
  show "history (addHistory_all (butlast es) initial_state) = rev (butlast es)"
    using len by (simp add: history_from_empty)
  have "take 100 (rev es) = rev (drop 1 es)"
    using len by (simp add: take_rev)
  then show "history (addHistory_all es initial_state) = rev (tl es)"
    by (simp add: history_from_empty drop_Suc)
  show "length (history (addHistory_all es initial_state)) = 100"
    using len by (simp add: history_from_empty)
qed

theorem addHistory_prepends_and_caps_witness:
  "length (map numbered_entry [0..<101]) = 101
   \<and> history (addHistory_all (map numbered_entry [0..<101]) initial_state)
       = rev (tl (map numbered_entry [0..<101]))
   \<and> length (history (addHistory_all (map numbered_entry [0..<101]) initial_state)) = 100
   \<and> length (history (setHistory (map numbered_entry [0..<100]) initial_state)) = 100
   \<and> history (addHistory (numbered_entry 100)
                (setHistory (map numbered_entry [0..<100]) initial_state))
       = numbered_entry 100
           # butlast (history (setHistory (map numbered_entry [0..<100]) initial_state))"
proof -
  have len: "length (map numbered_entry [0..<101]) = 101" by simp
  have full: "length (history (setHistory (map numbered_entry [0..<100]) initial_state)) = 100"
    by (simp add: setHistory_def)
  from len full show ?thesis
    using addHistory_prepends_and_caps
      [of "numbered_entry 100" "setHistory (map numbered_entry [0..<100]) initial_state"
          "map numbered_entry [0..<101]"]
    by blast
qed

text \<open>
  Claim C7, as stated, fails: \<open>setHistory\<close> stores a list of 101 entries as it is.
\<close>

theorem setHistory_exceeds_cap:
  "length (history (setHistory (map numbered_entry [0..<101]) initial_state)) = 101"
  by (simp add: setHistory_def)

text \<open>
  Claim C7, amended. \<open>setHistory\<close> overwrites the history with the given list, whatever
  its length: the result is within the capacity of 100 exactly when the given list is.
  The capacity is enforced by \<open>addHistory\<close> alone: after the next append the history
  has at most 100 entries again.
\<close>

theorem setHistory_overwrites:
  "history (setHistory entries s) = entries
   \<and> (length (history (setHistory entries s)) \<le> 100 \<longleftrightarrow> length entries \<le> 100)
   \<and> length (history (addHistory e (setHistory entries s))) \<le> 100"
  by (simp add: setHistory_def addHistory_def)

theorem setHistory_overwrites_witness:
  "history (setHistory [numbered_entry 1, numbered_entry 0] initial_state)
     = [numbered_entry 1, numbered_entry 0]
   \<and> length (history (addHistory (numbered_entry 2)
        (setHistory [numbered_entry 1, numbered_entry 0] initial_state))) \<le> 100"
  using setHistory_overwrites
    [of "[numbered_entry 1, numbered_entry 0]" initial_state "numbered_entry 2"]
  by simp

section \<open>Recording and transcribing\<close>

lemmas handler_defs =
  onRecordingStarted_def onRecordingStopped_def onTranscribing_def onTranscriptionComplete_def
  onError_def setRecording_def setTranscribing_def setError_def setCurrentTranscription_def
  addHistory_def

text \<open>
  Claim C1, as stated, fails: \<open>recording-started\<close> followed by \<open>transcribing\<close>, with no
  \<open>recording-stopped\<close> in between, leaves both flags set.
\<close>

theorem both_flags_reachable:
  "isRecording (deliver_all [RecordingStarted, Transcribing] initial_state)
   \<and> isTranscribing (deliver_all [RecordingStarted, Transcribing] initial_state)"
  by (simp add: handler_defs initial_state_def)

lemma deliver_exclusive: "exclusive s \<Longrightarrow> in_turn s e \<Longrightarrow> exclusive (deliver e s)"
  by (cases e) (auto simp: exclusive_def handler_defs)

lemma deliver_all_exclusive:
  "exclusive s \<Longrightarrow> all_in_turn s es \<Longrightarrow> exclusive (deliver_all es s)"
  by (induction es arbitrary: s) (auto intro: deliver_exclusive)

lemma all_in_turn_take: "all_in_turn s es \<Longrightarrow> all_in_turn s (take n es)"
proof (induction es arbitrary: s n)
  case Nil
  then show ?case by simp
next
  case (Cons e es)
  then show ?case by (cases n) auto
qed

lemma exclusive_initial: "exclusive initial_state"
  by (simp add: exclusive_def initial_state_def)

text \<open>
  Claim C1, amended. From the initial state, for every sequence of events in which
  \<open>recording-started\<close> is never delivered while \<open>isTranscribing\<close> is set and
  \<open>transcribing\<close> is never delivered while \<open>isRecording\<close> is set, the two flags are
  never both set, after any number of the events. The handlers do not enforce this
  order themselves. The \<open>error\<close> event clears both flags in every state.
\<close>

theorem flags_exclusive_in_turn:
  "(all_in_turn initial_state es \<longrightarrow> exclusive (deliver_all (take n es) initial_state))
   \<and> \<not> isRecording (deliver (ErrorEvent msg) s) \<and> \<not> isTranscribing (deliver (ErrorEvent msg) s)"
  by (auto intro!: deliver_all_exclusive all_in_turn_take exclusive_initial simp: handler_defs)

theorem flags_exclusive_in_turn_witness:
  "all_in_turn initial_state sample_events
   \<and> exclusive (deliver_all (take 3 sample_events) initial_state)
   \<and> \<not> isRecording (deliver (ErrorEvent (utf16 ''no microphone''))
                      (deliver RecordingStarted initial_state))"
proof -
  have t: "all_in_turn initial_state sample_events"
    by (simp add: sample_events_def handler_defs initial_state_def)
  from t flags_exclusive_in_turn
    [of sample_events 3 "utf16 ''no microphone''" "deliver RecordingStarted initial_state"]
  show ?thesis by blast
qed

text \<open>
  Claim C9. While \<open>isTranscribing\<close> is set, a click on the microphone button calls
  neither \<open>start_recording\<close> nor \<open>stop_recording_and_transcribe\<close>, logs nothing and
  leaves the store as it is, whatever the engine.
\<close>

theorem handleMicClick_noop_while_transcribing:
  "isTranscribing s \<Longrightarrow>
     called (handleMicClick eng s) = [] \<and> logged (handleMicClick eng s) = []
     \<and> store_after (handleMicClick eng s) = s"
  by (simp add: handleMicClick_def)

theorem handleMicClick_noop_while_transcribing_witness:
  "isTranscribing (deliver Transcribing initial_state)
   \<and> called (handleMicClick (Some accepting_engine) (deliver Transcribing initial_state)) = []
   \<and> store_after (handleMicClick (Some accepting_engine) (deliver Transcribing initial_state))
       = deliver Transcribing initial_state"
proof -
  have t: "isTranscribing (deliver Transcribing initial_state)"
    by (simp add: onTranscribing_def setTranscribing_def)
  from t handleMicClick_noop_while_transcribing [OF t, of "Some accepting_engine"]
  show ?thesis by simp
qed

section \<open>Headless mode\<close>

text \<open>
  Claim C3, as stated, fails: without an engine \<open>startRecording\<close> rejects with the error
  that \<open>tauriInvoke\<close> throws.
\<close>

theorem startRecording_rejects_headless:
  "startRecording None = Inl (Error (utf16 ''Not running in Tauri''))"
  by (simp add: startRecording_def tauriInvoke_def)

text \<open>
  Claim C3, amended. Without an engine, the five commands that have a fallback settle
  with it: \<open>get_recording_state\<close> with \<open>false\<close>, \<open>get_settings\<close> with the built-in
  defaults, \<open>get_history\<close> and \<open>list_input_devices\<close> with the empty list,
  \<open>get_providers\<close> with the built-in list; \<open>setupEventListeners\<close> returns no handle.
  The commands without a fallback (\<open>start_recording\<close>,
  \<open>stop_recording_and_transcribe\<close>, \<open>save_settings\<close>, \<open>clear_history\<close>,
  \<open>get_constme_whisper_status\<close> and the two downloads) reject with the error
  "Not running in Tauri".
\<close>

theorem headless_commands:
  "getRecordingState None = Inr False
   \<and> getSettings None = Inr defaultSettings
   \<and> getHistory None = Inr []
   \<and> listInputDevices None = Inr []
   \<and> getProviders None = Inr defaultProviders
   \<and> setupEventListeners None = []
   \<and> startRecording None = Inl (Error (utf16 ''Not running in Tauri''))
   \<and> stopRecordingAndTranscribe None = Inl (Error (utf16 ''Not running in Tauri''))
   \<and> saveSettings None st = Inl (Error (utf16 ''Not running in Tauri''))
   \<and> clearHistory None = Inl (Error (utf16 ''Not running in Tauri''))
   \<and> getConstmeWhisperStatus None = Inl (Error (utf16 ''Not running in Tauri''))
   \<and> downloadConstmeDll None = Inl (Error (utf16 ''Not running in Tauri''))
   \<and> downloadConstmeModel None f = Inl (Error (utf16 ''Not running in Tauri''))"
  by (simp add: getRecordingState_def getSettings_def getHistory_def listInputDevices_def
      getProviders_def setupEventListeners_def startRecording_def stopRecordingAndTranscribe_def
      saveSettings_def clearHistory_def getConstmeWhisperStatus_def downloadConstmeDll_def
      downloadConstmeModel_def catch_with_def tauriInvoke_def)

theorem headless_commands_witness:
  "getSettings None = Inr defaultSettings
   \<and> saveSettings None defaultSettings = Inl (Error (utf16 ''Not running in Tauri''))
   \<and> downloadConstmeModel None (utf16 ''ggml-medium.bin'')
       = Inl (Error (utf16 ''Not running in Tauri''))"
  using headless_commands [of defaultSettings "utf16 ''ggml-medium.bin''"]
  by blast

section \<open>Saving the draft\<close>

text \<open>
  Claim C4. For every edit \<open>updateField\<close> of a draft and every save that follows it:
  when the engine call rejects, the store, and with it the saved settings, is unchanged
  and the draft is still the edited one; when the call succeeds, the saved settings
  become the edited draft.
\<close>

theorem failed_save_keeps_draft:
  "localSettings p = Some prev \<Longrightarrow>
     (saveSettings eng (with_field u prev) = Inl err \<longrightarrow>
        store (handleSave eng (updateField u p)) = store p
        \<and> localSettings (handleSave eng (updateField u p)) = Some (with_field u prev))
   \<and> (saveSettings eng (with_field u prev) = Inr v \<longrightarrow>
        settings (store (handleSave eng (updateField u p))) = Some (with_field u prev)
        \<and> localSettings (handleSave eng (updateField u p)) = Some (with_field u prev))"
  by (simp add: handleSave_def updateField_def settings_effect_def setSettings_def)

theorem failed_save_keeps_draft_witness:
  "localSettings sample_panel = Some defaultSettings
   \<and> saveSettings None (with_field (Set_language (utf16 ''nl'')) defaultSettings)
       = Inl (Error (utf16 ''Not running in Tauri''))
   \<and> store (handleSave None (updateField (Set_language (utf16 ''nl'')) sample_panel))
       = store sample_panel
   \<and> localSettings (handleSave None (updateField (Set_language (utf16 ''nl'')) sample_panel))
       = Some (defaultSettings\<lparr>language := utf16 ''nl''\<rparr>)
   \<and> saveSettings (Some accepting_engine)
        (with_field (Set_language (utf16 ''nl'')) defaultSettings) = Inr ()
   \<and> settings (store (handleSave (Some accepting_engine)
        (updateField (Set_language (utf16 ''nl'')) sample_panel)))
       = Some (defaultSettings\<lparr>language := utf16 ''nl''\<rparr>)"
proof -
  have d: "localSettings sample_panel = Some defaultSettings"
    by (simp add: sample_panel_def)
  have rej: "saveSettings None (with_field (Set_language (utf16 ''nl'')) defaultSettings)
       = Inl (Error (utf16 ''Not running in Tauri''))"
    by (simp add: saveSettings_def tauriInvoke_def)
  have acc: "saveSettings (Some accepting_engine)
       (with_field (Set_language (utf16 ''nl'')) defaultSettings) = Inr ()"
    by (simp add: saveSettings_def tauriInvoke_def accepting_engine_def)
  from d rej acc
    failed_save_keeps_draft [OF d, of None "Set_language (utf16 ''nl'')"
      "Error (utf16 ''Not running in Tauri'')" "()"]
    failed_save_keeps_draft [OF d, of "Some accepting_engine" "Set_language (utf16 ''nl'')"
      "Error (utf16 ''Not running in Tauri'')" "()"]
  show ?thesis by simp
qed

section \<open>Provider configuration\<close>

lemma updateProviderConfig_proto_key:
  "localSettings p = Some prev \<Longrightarrow> provider_configs prev (utf16 ''__proto__'') = None \<Longrightarrow>
     draft_configs (updateProviderConfig (utf16 ''__proto__'') field val p) = provider_configs prev"
  by (simp add: updateProviderConfig_def draft_configs_def Let_def)

text \<open>
  Claim C8. For every draft and every provider identifier (any key but \<open>__proto__\<close>,
  which is not the identifier of a provider and for which the assignment creates no
  entry), \<open>updateProviderConfig providerId field val\<close> changes only the
  \<open>provider_configs\<close> of the draft; afterwards the provider has an entry, in which the
  field reads \<open>null\<close> when \<open>val\<close> is the empty string and \<open>val\<close> otherwise; the other
  fields of that entry and the entries of the other providers read as before. So after
  \<open>updateProviderConfig "OpenAiWhisper" "api_key" ""\<close> the field \<open>api_key\<close> reads
  \<open>null\<close>.
\<close>

theorem updateProviderConfig_merges_field:
  "localSettings p = Some prev \<Longrightarrow> providerId \<noteq> utf16 ''__proto__'' \<Longrightarrow>
     updateProviderConfig providerId field val p
       = p\<lparr>localSettings :=
            Some (prev\<lparr>provider_configs :=
                          draft_configs (updateProviderConfig providerId field val p)\<rparr>)\<rparr>
     \<and> providerId \<in> dom (draft_configs (updateProviderConfig providerId field val p))
     \<and> config_field (draft_configs (updateProviderConfig providerId field val p)) providerId field
         = Some (if val = [] then None else Some val)
     \<and> (\<forall>g. g \<noteq> field \<longrightarrow>
           config_field (draft_configs (updateProviderConfig providerId field val p)) providerId g
             = config_field (provider_configs prev) providerId g)
     \<and> (\<forall>q. q \<noteq> providerId \<longrightarrow>
           draft_configs (updateProviderConfig providerId field val p) q = provider_configs prev q)"
  by (simp add: updateProviderConfig_def draft_configs_def config_field_def Let_def
      split: option.splits)

theorem updateProviderConfig_merges_field_witness:
  "localSettings sample_panel = Some defaultSettings
   \<and> utf16 ''OpenAiWhisper'' \<noteq> utf16 ''__proto__''
   \<and> config_field
        (draft_configs
           (updateProviderConfig (utf16 ''OpenAiWhisper'') (utf16 ''api_key'') [] sample_panel))
        (utf16 ''OpenAiWhisper'') (utf16 ''api_key'') = Some None"
proof -
  have d: "localSettings sample_panel = Some defaultSettings"
    by (simp add: sample_panel_def)
  have k: "utf16 ''OpenAiWhisper'' \<noteq> utf16 ''__proto__''"
    by (simp add: utf16_def)
  from d k updateProviderConfig_merges_field
    [OF d k, of "utf16 ''api_key''" "[]"]
  show ?thesis by simp
qed

section \<open>The accelerator codec\<close>

lemma handleHotkeyKeyDown_encodes:
  "localSettings p = Some prev \<Longrightarrow> key e \<notin> set control_keys \<Longrightarrow>
     handleHotkeyKeyDown up e p
       = p\<lparr>localSettings := Some (prev\<lparr>hotkey := encode_chord up e\<rparr>),
           isRecordingHotkey := False\<rparr>"
  by (simp add: handleHotkeyKeyDown_def control_keys_def updateField_def encode_chord_def
      modifier_tokens_def terminal_token_def Let_def)

lemma encode_ctrl_shift_space:
  "key e = utf16 '' '' \<Longrightarrow> ctrlKey e \<or> metaKey e \<Longrightarrow> \<not> altKey e \<Longrightarrow> shiftKey e \<Longrightarrow>
     encode_chord up e = utf16 ''CommandOrControl+Shift+Space''"
  by (simp add: encode_chord_def modifier_tokens_def terminal_token_def utf16_def)

lemma space_not_control: "utf16 '' '' \<notin> set control_keys"
  by (simp add: control_keys_def utf16_def)

lemma display_mac:
  "HotkeyDisplay True (utf16 ''CommandOrControl+Shift+Space'')
     = [[0x2318], [0x21E7], utf16 ''Space'']"
  by (simp add: HotkeyDisplay_def formatKeyLabel_def utf16_def)

lemma display_other:
  "HotkeyDisplay False (utf16 ''CommandOrControl+Shift+Space'')
     = [utf16 ''Ctrl'', utf16 ''Shift'', utf16 ''Space'']"
  by (simp add: HotkeyDisplay_def formatKeyLabel_def utf16_def)

lemma formatKeyLabel_verbatim:
  "k \<notin> set recognized_tokens \<Longrightarrow> formatKeyLabel isMac k = k"
  by (simp add: formatKeyLabel_def recognized_tokens_def)

text \<open>
  Claim C5. For a key that is neither Escape, Backspace, Delete nor a bare modifier, the
  handler stores the encoding as the codec describes it: the tokens of the held
  modifiers in the order \<open>CommandOrControl\<close>, \<open>Alt\<close>, \<open>Shift\<close>, then the terminal token
  (\<open>Space\<close> for the space, a single character upper-cased), joined with \<open>+\<close>. The chord
  of control (or meta), shift and the space bar encodes to
  \<open>CommandOrControl+Shift+Space\<close>. \<open>HotkeyDisplay\<close> shows that string as the command
  glyph, the shift glyph and \<open>Space\<close> on a Mac and as \<open>Ctrl\<close>, \<open>Shift\<close>, \<open>Space\<close>
  elsewhere. A token that \<open>formatKeyLabel\<close> has no case for is shown as it is.
\<close>

theorem hotkey_codec:
  "(localSettings p = Some prev \<and> key e \<notin> set control_keys \<longrightarrow>
      handleHotkeyKeyDown up e p
        = p\<lparr>localSettings := Some (prev\<lparr>hotkey := encode_chord up e\<rparr>),
            isRecordingHotkey := False\<rparr>)
   \<and> (key e = utf16 '' '' \<and> (ctrlKey e \<or> metaKey e) \<and> \<not> altKey e \<and> shiftKey e \<longrightarrow>
        encode_chord up e = utf16 ''CommandOrControl+Shift+Space''
        \<and> (localSettings p = Some prev \<longrightarrow>
             localSettings (handleHotkeyKeyDown up e p)
               = Some (prev\<lparr>hotkey := utf16 ''CommandOrControl+Shift+Space''\<rparr>)))
   \<and> HotkeyDisplay True (utf16 ''CommandOrControl+Shift+Space'')
        = [[0x2318], [0x21E7], utf16 ''Space'']
   \<and> HotkeyDisplay False (utf16 ''CommandOrControl+Shift+Space'')
        = [utf16 ''Ctrl'', utf16 ''Shift'', utf16 ''Space'']
   \<and> (k \<notin> set recognized_tokens \<longrightarrow> formatKeyLabel isMac k = k)"
proof (intro conjI impI)
  show "handleHotkeyKeyDown up e p
        = p\<lparr>localSettings := Some (prev\<lparr>hotkey := encode_chord up e\<rparr>),
            isRecordingHotkey := False\<rparr>"
    if "localSettings p = Some prev \<and> key e \<notin> set control_keys"
    using that by (simp add: handleHotkeyKeyDown_encodes)
next
  assume chord: "key e = utf16 '' '' \<and> (ctrlKey e \<or> metaKey e) \<and> \<not> altKey e \<and> shiftKey e"
  then show enc: "encode_chord up e = utf16 ''CommandOrControl+Shift+Space''"
    by (simp add: encode_ctrl_shift_space)
  assume "localSettings p = Some prev"
  moreover from chord have "key e \<notin> set control_keys"
    by (simp add: space_not_control)
  ultimately show "localSettings (handleHotkeyKeyDown up e p)
               = Some (prev\<lparr>hotkey := utf16 ''CommandOrControl+Shift+Space''\<rparr>)"
    using enc by (simp add: handleHotkeyKeyDown_encodes)
next
  show "HotkeyDisplay True (utf16 ''CommandOrControl+Shift+Space'')
        = [[0x2318], [0x21E7], utf16 ''Space'']"
    by (rule display_mac)
  show "HotkeyDisplay False (utf16 ''CommandOrControl+Shift+Space'')
        = [utf16 ''Ctrl'', utf16 ''Shift'', utf16 ''Space'']"
    by (rule display_other)
  show "formatKeyLabel isMac k = k" if "k \<notin> set recognized_tokens"
    using that by (rule formatKeyLabel_verbatim)
qed

theorem hotkey_codec_witness:
  "localSettings sample_panel = Some defaultSettings
   \<and> key ctrl_shift_space = utf16 '' '' \<and> ctrlKey ctrl_shift_space \<and> \<not> altKey ctrl_shift_space
   \<and> shiftKey ctrl_shift_space
   \<and> localSettings (handleHotkeyKeyDown ascii_toUpperCase ctrl_shift_space sample_panel)
        = Some (defaultSettings\<lparr>hotkey := utf16 ''CommandOrControl+Shift+Space''\<rparr>)
   \<and> utf16 ''F5'' \<notin> set recognized_tokens
   \<and> formatKeyLabel True (utf16 ''F5'') = utf16 ''F5''"
proof -
  have d: "localSettings sample_panel = Some defaultSettings"
    by (simp add: sample_panel_def)
  have c: "key ctrl_shift_space = utf16 '' '' \<and> ctrlKey ctrl_shift_space
           \<and> \<not> altKey ctrl_shift_space \<and> shiftKey ctrl_shift_space"
    by (simp add: ctrl_shift_space_def)
  have f: "utf16 ''F5'' \<notin> set recognized_tokens"
    by (simp add: recognized_tokens_def utf16_def)
  from d c f
    hotkey_codec [of sample_panel defaultSettings ctrl_shift_space ascii_toUpperCase
      "utf16 ''F5''" True]
  show ?thesis by blast
qed

lemma printable_not_control: "printable_key k \<Longrightarrow> k \<notin> set control_keys"
  by (auto simp: printable_key_def control_keys_def utf16_def)

lemma space_alone_hotkey:
  "localSettings p = Some prev \<Longrightarrow> key e = utf16 '' '' \<Longrightarrow>
   \<not> ctrlKey e \<Longrightarrow> \<not> metaKey e \<Longrightarrow> \<not> altKey e \<Longrightarrow> \<not> shiftKey e \<Longrightarrow>
     localSettings (handleHotkeyKeyDown up e p) = Some (prev\<lparr>hotkey := utf16 ''Space''\<rparr>)"
  by (simp add: handleHotkeyKeyDown_encodes space_not_control encode_chord_def
      modifier_tokens_def terminal_token_def)

text \<open>
  Claim C10. For every key-down whose key is a single printable character, with no
  modifier held, the handler stores as the hotkey exactly that character upper-cased:
  no modifier token and no separator are added, and nothing else in the panel changes
  but the end of the capture. Pressing \<open>a\<close> alone stores \<open>A\<close>. (The space bar alone is
  not among these keys: it stores \<open>Space\<close>.)
\<close>

theorem plain_key_hotkey:
  "localSettings p = Some prev \<Longrightarrow> printable_key (key e) \<Longrightarrow>
   \<not> ctrlKey e \<Longrightarrow> \<not> metaKey e \<Longrightarrow> \<not> altKey e \<Longrightarrow> \<not> shiftKey e \<Longrightarrow>
     handleHotkeyKeyDown up e p
       = p\<lparr>localSettings := Some (prev\<lparr>hotkey := up (key e)\<rparr>), isRecordingHotkey := False\<rparr>"
  by (simp add: handleHotkeyKeyDown_encodes printable_not_control encode_chord_def
      modifier_tokens_def terminal_token_def) (simp add: printable_key_def)

theorem plain_key_hotkey_witness:
  "localSettings sample_panel = Some defaultSettings \<and> printable_key (key plain_a)
   \<and> localSettings (handleHotkeyKeyDown ascii_toUpperCase plain_a sample_panel)
        = Some (defaultSettings\<lparr>hotkey := utf16 ''A''\<rparr>)"
proof -
  have d: "localSettings sample_panel = Some defaultSettings"
    by (simp add: sample_panel_def)
  have k: "printable_key (key plain_a)"
    by (simp add: printable_key_def plain_a_def utf16_def)
  have up: "ascii_toUpperCase (key plain_a) = utf16 ''A''"
    by (simp add: ascii_toUpperCase_def plain_a_def utf16_def)
  from d k up plain_key_hotkey [OF d k, of ascii_toUpperCase]
  show ?thesis by (simp add: plain_a_def)
qed

section \<open>Download progress\<close>

text \<open>
  Claim C2, as stated, fails: the component keeps one progress line for all items.
  While the line of the item \<open>dll\<close> is displayed, the event \<open>done = true\<close> of another
  item clears it.
\<close>

theorem done_clears_other_items_line:
  "downloadProgress (onDownloadProgress (Some accepting_engine) dll_progress empty_constme_panel)
     = utf16 ''dll: 512 B / 2.0 KB''
   \<and> downloadProgress
        (onDownloadProgress (Some accepting_engine) model_done
           (onDownloadProgress (Some accepting_engine) dll_progress empty_constme_panel)) = []"
  by (simp add: onDownloadProgress_def dll_progress_def model_done_def progress_line_def
      formatBytes_def toFixed_1_def loadStatus_def getConstmeWhisperStatus_def tauriInvoke_def
      accepting_engine_def utf16_def)

lemma downloadProgress_loadStatus: "downloadProgress (loadStatus eng c) = downloadProgress c"
  by (simp add: loadStatus_def split: sum.splits)

lemma downloadProgress_onDownloadProgress:
  "downloadProgress (onDownloadProgress eng ev c) = (if is_done ev then [] else progress_line ev)"
  by (simp add: onDownloadProgress_def downloadProgress_loadStatus)

lemma onDownloadProgress_all_snoc:
  "onDownloadProgress_all eng (evs @ [ev]) c
     = onDownloadProgress eng ev (onDownloadProgress_all eng evs c)"
  by (induction evs arbitrary: c) simp_all

lemma status_onDownloadProgress:
  "status (onDownloadProgress eng ev c)
     = (if is_done ev
        then (case getConstmeWhisperStatus eng of Inl _ \<Rightarrow> status c | Inr v \<Rightarrow> Some v)
        else status c)"
  by (simp add: onDownloadProgress_def loadStatus_def split: sum.splits)

text \<open>
  Claim C2, amended. The tracker holds a single progress line, shared by all items.
  After any sequence of progress events the line is determined by the last event
  alone, whatever its item and whatever came before: empty when the event has
  \<open>done = true\<close>, and otherwise the line of that event, "item: downloaded / total",
  where the total prints as \<open>?\<close> when \<open>total_bytes\<close> is \<open>null\<close>. An event with
  \<open>done = true\<close>, of any item, also reloads the asset status from the engine: the status
  becomes what \<open>get_constme_whisper_status\<close> settles with, and stays as it was when
  the command rejects, as it does without an engine; an event with \<open>done = false\<close>
  leaves the status as it was. An event changes neither \<open>downloading\<close> nor the error
  of the component.
\<close>

theorem single_progress_line:
  "downloadProgress (onDownloadProgress_all eng (evs @ [ev]) c)
     = (if is_done ev then [] else progress_line ev)
   \<and> (total_bytes ev = None \<longrightarrow>
        progress_line ev
          = item ev @ utf16 '': '' @ formatBytes (downloaded_bytes ev) @ utf16 '' / ?'')
   \<and> status (onDownloadProgress eng ev c)
        = (if is_done ev
           then (case getConstmeWhisperStatus eng of Inl _ \<Rightarrow> status c | Inr v \<Rightarrow> Some v)
           else status c)
   \<and> (is_done ev \<and> get_constme_whisper_status e = Inr v \<longrightarrow>
        status (onDownloadProgress (Some e) ev c) = Some v)
   \<and> (is_done ev \<longrightarrow> status (onDownloadProgress None ev c) = status c)
   \<and> downloading (onDownloadProgress eng ev c) = downloading c
   \<and> download_error (onDownloadProgress eng ev c) = download_error c"
proof (intro conjI impI)
  show "downloadProgress (onDownloadProgress_all eng (evs @ [ev]) c)
          = (if is_done ev then [] else progress_line ev)"
    by (simp add: onDownloadProgress_all_snoc downloadProgress_onDownloadProgress)
  show "progress_line ev
          = item ev @ utf16 '': '' @ formatBytes (downloaded_bytes ev) @ utf16 '' / ?''"
    if "total_bytes ev = None"
    using that by (simp add: progress_line_def utf16_def)
  show "status (onDownloadProgress eng ev c)
        = (if is_done ev
           then (case getConstmeWhisperStatus eng of Inl _ \<Rightarrow> status c | Inr v \<Rightarrow> Some v)
           else status c)"
    by (rule status_onDownloadProgress)
  show "status (onDownloadProgress (Some e) ev c) = Some v"
    if "is_done ev \<and> get_constme_whisper_status e = Inr v"
    using that by (simp add: status_onDownloadProgress getConstmeWhisperStatus_def tauriInvoke_def)
  show "status (onDownloadProgress None ev c) = status c" if "is_done ev"
    using that by (simp add: status_onDownloadProgress getConstmeWhisperStatus_def tauriInvoke_def)
  show "downloading (onDownloadProgress eng ev c) = downloading c"
    by (simp add: onDownloadProgress_def loadStatus_def split: sum.splits)
  show "download_error (onDownloadProgress eng ev c) = download_error c"
    by (simp add: onDownloadProgress_def loadStatus_def split: sum.splits)
qed

theorem single_progress_line_witness:
  "total_bytes open_ended_progress = None
   \<and> downloadProgress
        (onDownloadProgress_all (Some accepting_engine)
           [dll_progress, model_done, open_ended_progress] empty_constme_panel)
       = utf16 ''ggml-medium.bin: 3.0 KB / ?''
   \<and> is_done model_done
   \<and> get_constme_whisper_status accepting_engine = Inr installed_status
   \<and> downloadProgress
        (onDownloadProgress_all (Some accepting_engine) [dll_progress, model_done]
           empty_constme_panel) = []
   \<and> status (onDownloadProgress (Some accepting_engine) model_done empty_constme_panel)
       = Some installed_status
   \<and> status (onDownloadProgress None model_done empty_constme_panel) = None"
proof -
  note last_open =
    single_progress_line [of "Some accepting_engine" "[dll_progress, model_done]"
      open_ended_progress empty_constme_panel accepting_engine installed_status]
  note last_done =
    single_progress_line [of "Some accepting_engine" "[dll_progress]" model_done
      empty_constme_panel accepting_engine installed_status]
  have t: "total_bytes open_ended_progress = None"
    by (simp add: open_ended_progress_def)
  have n: "\<not> is_done open_ended_progress"
    by (simp add: open_ended_progress_def)
  have m: "is_done model_done"
    by (simp add: model_done_def)
  have g: "get_constme_whisper_status accepting_engine = Inr installed_status"
    by (simp add: accepting_engine_def)
  have l: "item open_ended_progress @ utf16 '': ''
             @ formatBytes (downloaded_bytes open_ended_progress) @ utf16 '' / ?''
           = utf16 ''ggml-medium.bin: 3.0 KB / ?''"
    by (simp add: open_ended_progress_def formatBytes_def toFixed_1_def utf16_def)
  have text_of_line: "progress_line open_ended_progress = utf16 ''ggml-medium.bin: 3.0 KB / ?''"
    using last_open t l by simp
  have shown: "downloadProgress
        (onDownloadProgress_all (Some accepting_engine)
           [dll_progress, model_done, open_ended_progress] empty_constme_panel)
       = utf16 ''ggml-medium.bin: 3.0 KB / ?''"
    using last_open [THEN conjunct1] n text_of_line by simp
  have cleared: "downloadProgress
        (onDownloadProgress_all (Some accepting_engine) [dll_progress, model_done]
           empty_constme_panel) = []"
    using last_done [THEN conjunct1] m by simp
  have refreshed:
    "status (onDownloadProgress (Some accepting_engine) model_done empty_constme_panel)
       = Some installed_status"
    using last_done m g by blast
  have "status (onDownloadProgress None model_done empty_constme_panel)
          = status empty_constme_panel"
    using last_done m by blast
  then have kept: "status (onDownloadProgress None model_done empty_constme_panel) = None"
    by (simp add: empty_constme_panel_def)
  from t shown m g cleared refreshed kept show ?thesis by blast
qed

end
